theory Spec2Isabelle
  imports Main
begin

section \<open>The header \<^verbatim>\<open>main/secrets_example.h\<close>\<close>

text \<open>
  The repository is one C++ header, a template for WiFi credentials. It has no functions:
  what it \<^emph>\<open>does\<close> is what a compiler makes of its text when a translation unit includes
  it. The text is kept here line by line, exactly as committed (21 lines, the last one
  without a line terminator; lines 3 and 9 end in a blank).
\<close>

definition secrets_example_h :: "string list" where
  \<open>secrets_example_h =
    [''/*'',
     '' * WiFi Credentials Template'',
     '' * '',
     '' * INSTRUCTIONS:'',
     '' * 1. Copy this file and rename it to "secrets.h"'',
     '' * 2. Replace YOUR_WIFI_SSID with your actual WiFi network name'',
     '' * 3. Replace YOUR_WIFI_PASSWORD with your actual WiFi password'',
     '' * 4. Save the file'',
     '' * '',
     '' * IMPORTANT: Never commit secrets.h to version control!'',
     '' * Only commit secrets_example.h as a template.'',
     '' */'',
     '''',
     ''#ifndef SECRETS_H'',
     ''#define SECRETS_H'',
     '''',
     ''// WiFi Network Credentials'',
     ''const char* ssid = "YOUR_WIFI_SSID";        // Replace with your WiFi network name'',
     ''const char* password = "YOUR_WIFI_PASSWORD"; // Replace with your WiFi password'',
     '''',
     ''#endif'']\<close>


section \<open>Characters\<close>

definition dquote :: char where
  "dquote = CHR 0x22"

definition backslash :: char where
  "backslash = CHR 0x5C"

text \<open>The compiler ends a line at a line feed or at a carriage return.\<close>

definition is_line_break :: "char \<Rightarrow> bool" where
  "is_line_break c = (c = CHR 0x0A \<or> c = CHR 0x0D)"

definition is_space :: "char \<Rightarrow> bool" where
  "is_space c = (c = CHR 0x20 \<or> c = CHR 0x09)"

definition is_ident_char :: "char \<Rightarrow> bool" where
  "is_ident_char c =
     (let n = (of_char c :: nat)
      in (97 \<le> n \<and> n \<le> 122) \<or> (65 \<le> n \<and> n \<le> 90) \<or> (48 \<le> n \<and> n \<le> 57) \<or> n = 95)"

section \<open>Errors of the build\<close>

datatype error =
    LineBreakInLine
  | UnterminatedString
  | UnterminatedComment
  | BadEscape char
  | UnsupportedDirective
  | SyntaxError
  | EndifWithoutIf
  | UnterminatedConditional
  | Redefinition string
  | Undeclared string
  | ReadOnly string

definition and_then :: "error + 'a \<Rightarrow> ('a \<Rightarrow> error + 'b) \<Rightarrow> error + 'b" where
  "and_then r f = (case r of Inl e \<Rightarrow> Inl e | Inr x \<Rightarrow> f x)"

section \<open>Lexing a line\<close>

text \<open>
  The fragment of C++ lexing that the header exercises: block comments (they span lines)
  and line comments are dropped, a string literal is read up to its closing quote with
  the simple escape sequences decoded, identifiers and keywords are maximal
  runs of letters, digits and underscores, every other visible character is a punctuator.
  Inside a comment a quote means nothing, and inside a string literal \<^verbatim>\<open>//\<close> and
  \<^verbatim>\<open>/*\<close> mean nothing. The text is given line by line, so a line break inside a line
  is an error. Outside the fragment: line splicing, character literals, and the escape
  sequences other than the six of \<open>simple_escape\<close> (they are reported as \<open>BadEscape\<close>).

  A string literal that its line does not close, or that holds an escape sequence outside
  the fragment, is lexed as a malformed token. It stops the build where program text is
  parsed, and nowhere else: in a group that the preprocessor skips the compiler only warns.
\<close>

datatype token = Ident string | Punct char | StrLit string | Malformed error

datatype mode = Code | Slash | LineComment | BlockComment | BlockStar | InString | StringEscape

record lexer =
  mode :: mode
  word :: string
  bad :: "error option"
  toks :: "token list"

definition flush_word :: "lexer \<Rightarrow> lexer" where
  "flush_word lx =
     (if word lx = [] then lx else lx\<lparr>word := [], toks := toks lx @ [Ident (word lx)]\<rparr>)"

definition simple_escape :: "char \<Rightarrow> char option" where
  "simple_escape c =
     (if c = CHR ''n'' then Some (CHR 0x0A)
      else if c = CHR ''t'' then Some (CHR 0x09)
      else if c = CHR ''r'' then Some (CHR 0x0D)
      else if c = backslash then Some backslash
      else if c = dquote then Some dquote
      else if c = CHR 0x27 then Some (CHR 0x27)
      else None)"

definition code_char :: "char \<Rightarrow> lexer \<Rightarrow> lexer" where
  "code_char c lx =
     (if is_ident_char c then lx\<lparr>word := word lx @ [c]\<rparr>
      else let lx' = flush_word lx
           in if c = CHR ''/'' then lx'\<lparr>mode := Slash\<rparr>
              else if c = dquote then lx'\<lparr>mode := InString\<rparr>
              else if is_space c then lx'
              else lx'\<lparr>toks := toks lx' @ [Punct c]\<rparr>)"

definition lex_char :: "char \<Rightarrow> lexer \<Rightarrow> error + lexer" where
  "lex_char c lx =
     (if is_line_break c then Inl LineBreakInLine
      else case mode lx of
        Code \<Rightarrow> Inr (code_char c lx)
      | Slash \<Rightarrow>
          if c = CHR ''/'' then Inr (lx\<lparr>mode := LineComment\<rparr>)
          else if c = CHR ''*'' then Inr (lx\<lparr>mode := BlockComment\<rparr>)
          else Inr (code_char c (lx\<lparr>mode := Code, toks := toks lx @ [Punct (CHR ''/'')]\<rparr>))
      | LineComment \<Rightarrow> Inr lx
      | BlockComment \<Rightarrow> Inr (if c = CHR ''*'' then lx\<lparr>mode := BlockStar\<rparr> else lx)
      | BlockStar \<Rightarrow>
          Inr (if c = CHR ''/'' then lx\<lparr>mode := Code\<rparr>
               else if c = CHR ''*'' then lx
               else lx\<lparr>mode := BlockComment\<rparr>)
      | InString \<Rightarrow>
          if c = dquote
          then Inr (lx\<lparr>mode := Code, word := [], bad := None,
                      toks := toks lx @ [case bad lx of None \<Rightarrow> StrLit (word lx)
                                         | Some e \<Rightarrow> Malformed e]\<rparr>)
          else if c = backslash then Inr (lx\<lparr>mode := StringEscape\<rparr>)
          else Inr (lx\<lparr>word := word lx @ [c]\<rparr>)
      | StringEscape \<Rightarrow>
          (case simple_escape c of
             None \<Rightarrow>
               Inr (lx\<lparr>mode := InString,
                       bad := (case bad lx of None \<Rightarrow> Some (BadEscape c) | Some e \<Rightarrow> Some e)\<rparr>)
           | Some d \<Rightarrow> Inr (lx\<lparr>mode := InString, word := word lx @ [d]\<rparr>)))"

fun lex_chars :: "string \<Rightarrow> lexer \<Rightarrow> error + lexer" where
  "lex_chars [] lx = Inr lx"
| "lex_chars (c # cs) lx = and_then (lex_char c lx) (lex_chars cs)"

text \<open>
  At the end of a line a line comment is over, a block comment goes on (the flag returned),
  and a string literal still open is a malformed token.
\<close>

definition end_line :: "lexer \<Rightarrow> error + (token list \<times> bool)" where
  "end_line lx =
     (case mode lx of
        Code \<Rightarrow> Inr (toks (flush_word lx), False)
      | Slash \<Rightarrow> Inr (toks lx @ [Punct (CHR ''/'')], False)
      | LineComment \<Rightarrow> Inr (toks lx, False)
      | BlockComment \<Rightarrow> Inr (toks lx, True)
      | BlockStar \<Rightarrow> Inr (toks lx, True)
      | InString \<Rightarrow> Inr (toks lx @ [Malformed UnterminatedString], False)
      | StringEscape \<Rightarrow> Inr (toks lx @ [Malformed UnterminatedString], False))"

definition start_line :: "bool \<Rightarrow> lexer" where
  "start_line in_comment =
     \<lparr>mode = (if in_comment then BlockComment else Code), word = [], bad = None,
      toks = []\<rparr>"

definition lex_line :: "bool \<Rightarrow> string \<Rightarrow> error + (token list \<times> bool)" where
  "lex_line in_comment l = and_then (lex_chars l (start_line in_comment)) end_line"

fun lex_lines :: "bool \<Rightarrow> string list \<Rightarrow> error + token list list" where
  "lex_lines in_comment [] = (if in_comment then Inl UnterminatedComment else Inr [])"
| "lex_lines in_comment (l # ls) =
     and_then (lex_line in_comment l)
       (\<lambda>(ts, in_comment'). and_then (lex_lines in_comment' ls) (\<lambda>tss. Inr (ts # tss)))"

section \<open>Preprocessing and declarations\<close>

text \<open>
  A line is blank (after comments are dropped), one of the three directives the header
  uses, or program text. Any other directive is outside the fragment.
\<close>

datatype line = Blank | IfNDef string | Define string | EndIf | Text "token list"

definition directive :: "token list \<Rightarrow> error + line" where
  "directive ts =
     (case ts of
        [Ident d] \<Rightarrow> if d = ''endif'' then Inr EndIf else Inl UnsupportedDirective
      | [Ident d, Ident m] \<Rightarrow>
          if d = ''ifndef'' then Inr (IfNDef m)
          else if d = ''define'' then Inr (Define m)
          else Inl UnsupportedDirective
      | _ \<Rightarrow> Inl UnsupportedDirective)"

definition classify :: "token list \<Rightarrow> error + line" where
  "classify ts =
     (case ts of
        [] \<Rightarrow> Inr Blank
      | t # rest \<Rightarrow> if t = Punct (CHR ''#'') then directive rest else Inr (Text ts))"

fun classify_all :: "token list list \<Rightarrow> error + line list" where
  "classify_all [] = Inr []"
| "classify_all (ts # tss) =
     and_then (classify ts) (\<lambda>l. and_then (classify_all tss) (\<lambda>ls. Inr (l # ls)))"

text \<open>
  The one form of program text the header has: \<^verbatim>\<open>const char* name = "value";\<close>, the
  definition of a global pointer to a string literal, one definition on a line. White space
  between the tokens does not matter. A malformed token in the text stops the build with
  its own error. Any other program text is outside the fragment and is reported as
  \<open>SyntaxError\<close>.
\<close>

fun malformed :: "token list \<Rightarrow> error option" where
  "malformed [] = None"
| "malformed (Malformed e # ts) = Some e"
| "malformed (t # ts) = malformed ts"

definition parse_decl :: "token list \<Rightarrow> error + (string \<times> string)" where
  "parse_decl ts =
     (case malformed ts of
        Some e \<Rightarrow> Inl e
      | None \<Rightarrow>
         (case ts of
            [Ident q, Ident t, Punct s, Ident n, Punct e, StrLit v, Punct sc] \<Rightarrow>
              if q = ''const'' \<and> t = ''char'' \<and> s = CHR ''*'' \<and> e = CHR ''='' \<and> sc = CHR '';''
              then Inr (n, v) else Inl SyntaxError
          | _ \<Rightarrow> Inl SyntaxError))"

text \<open>
  A translation unit, as far as the header can change it: the macros defined so far and
  the globals defined so far, each with the characters of the literal it points to.
\<close>

record tu =
  macros :: "string set"
  globals :: "(string \<times> string) list"

definition empty_tu :: tu where
  "empty_tu = \<lparr>macros = {}, globals = []\<rparr>"

text \<open>
  The stack \<open>cs\<close> has one entry for each conditional that is open: whether its group is
  included. A group is included when its condition holds and the enclosing group is
  included. Text in a skipped group is not parsed.
\<close>

definition active :: "bool list \<Rightarrow> bool" where
  "active cs = (case cs of [] \<Rightarrow> True | c # _ \<Rightarrow> c)"

definition define_global :: "string \<Rightarrow> string \<Rightarrow> tu \<Rightarrow> error + tu" where
  "define_global n v u =
     (if n \<in> fst ` set (globals u) then Inl (Redefinition n)
      else Inr (u\<lparr>globals := globals u @ [(n, v)]\<rparr>))"

fun process :: "line list \<Rightarrow> bool list \<Rightarrow> tu \<Rightarrow> error + tu" where
  "process [] cs u = (if cs = [] then Inr u else Inl UnterminatedConditional)"
| "process (Blank # ls) cs u = process ls cs u"
| "process (IfNDef m # ls) cs u = process ls ((active cs \<and> m \<notin> macros u) # cs) u"
| "process (Define m # ls) cs u =
     process ls cs (if active cs then u\<lparr>macros := insert m (macros u)\<rparr> else u)"
| "process (EndIf # ls) cs u =
     (case cs of [] \<Rightarrow> Inl EndifWithoutIf | _ # cs' \<Rightarrow> process ls cs' u)"
| "process (Text ts # ls) cs u =
     (if active cs
      then and_then (parse_decl ts) (\<lambda>(n, v). and_then (define_global n v u) (process ls cs))
      else process ls cs u)"

text \<open>
  Including a file into a translation unit: its lines are lexed, classified and processed;
  the first error stops the build. \<open>read_back\<close> builds a file on its own and reads the
  two constants by name, as the consuming build does: a \<^verbatim>\<open>const char*\<close> is read as a
  C string, which ends before the first NUL character. \<open>include_times\<close> includes a file
  \<open>n\<close> times in a row.
\<close>

definition c_str :: "string \<Rightarrow> string" where
  "c_str v = takeWhile (\<lambda>c. c \<noteq> CHR 0x00) v"

definition read_globals :: "tu \<Rightarrow> string option \<times> string option" where
  "read_globals u =
     (map_option c_str (map_of (globals u) ''ssid''),
      map_option c_str (map_of (globals u) ''password''))"

definition include_file :: "string list \<Rightarrow> tu \<Rightarrow> error + tu" where
  "include_file f u =
     and_then (lex_lines False f) (\<lambda>tss. and_then (classify_all tss) (\<lambda>ls. process ls [] u))"

definition read_back :: "string list \<Rightarrow> error + (string option \<times> string option)" where
  "read_back f = and_then (include_file f empty_tu) (\<lambda>u. Inr (read_globals u))"

fun include_times :: "nat \<Rightarrow> string list \<Rightarrow> tu \<Rightarrow> error + tu" where
  "include_times 0 f u = Inr u"
| "include_times (Suc n) f u = and_then (include_file f u) (include_times n f)"

section \<open>What the declared type lets a program do\<close>

text \<open>
  The header has no operation of its own; what can happen to the two globals at run time is
  what their declared type lets the including program do. In a pointer declaration a
  \<^verbatim>\<open>const\<close> before the star makes the characters pointed to read-only, a
  \<^verbatim>\<open>const\<close> after the star makes the pointer itself read-only.
\<close>

definition pointee_const :: "token list \<Rightarrow> bool" where
  "pointee_const ts = (Ident ''const'' \<in> set (takeWhile (\<lambda>t. t \<noteq> Punct (CHR ''*'')) ts))"

definition pointer_const :: "token list \<Rightarrow> bool" where
  "pointer_const ts =
     (Ident ''const'' \<in> set (takeWhile (\<lambda>t. t \<noteq> Punct (CHR ''=''))
                                (dropWhile (\<lambda>t. t \<noteq> Punct (CHR ''*'')) ts)))"

definition declares :: "string \<Rightarrow> token list \<Rightarrow> bool" where
  "declares n ts = (case parse_decl ts of Inl e \<Rightarrow> False | Inr (m, v) \<Rightarrow> m = n)"

text \<open>
  The two operations that C++ has on such a global: \<^verbatim>\<open>name = "value";\<close> makes the
  pointer point to another literal, \<^verbatim>\<open>name[i] = c;\<close> stores a character through it.
  The compiler refuses the first on a read-only pointer and the second on read-only
  characters.
\<close>

datatype operation = Assign string string | Store string nat char

fun run_operation :: "token list list \<Rightarrow> operation \<Rightarrow> tu \<Rightarrow> error + tu" where
  "run_operation tss (Assign n v) u =
     (case find (declares n) tss of
        None \<Rightarrow> Inl (Undeclared n)
      | Some ts \<Rightarrow>
          if pointer_const ts then Inl (ReadOnly n)
          else Inr (u\<lparr>globals := map (\<lambda>(m, w). if m = n then (m, v) else (m, w)) (globals u)\<rparr>))"
| "run_operation tss (Store n i c) u =
     (case find (declares n) tss of
        None \<Rightarrow> Inl (Undeclared n)
      | Some ts \<Rightarrow>
          if pointee_const ts then Inl (ReadOnly n)
          else Inr (u\<lparr>globals := map (\<lambda>(m, w). if m = n then (m, w[i := c]) else (m, w))
                                    (globals u)\<rparr>))"

text \<open>
  A program that includes the file, runs one operation and then reads the two constants.
\<close>

definition read_back_after :: "operation \<Rightarrow> string list \<Rightarrow> error + (string option \<times> string option)" where
  "read_back_after op f =
     and_then (lex_lines False f)
       (\<lambda>tss. and_then (include_file f empty_tu)
          (\<lambda>u. and_then (run_operation tss op u) (\<lambda>u'. Inr (read_globals u'))))"

section \<open>Copies of the template\<close>

text \<open>
  The header's own comment says how a copy is made: copy the file, replace
  \<^verbatim>\<open>YOUR_WIFI_SSID\<close> with the network name and \<^verbatim>\<open>YOUR_WIFI_PASSWORD\<close> with the
  password. The replacement is one of text, made in the two definitions (lines 18 and 19).
  A value is text on one line: with a line break in it the copy has a line that is not
  lexed (\<open>LineBreakInLine\<close>).
\<close>

fun replace_first :: "string \<Rightarrow> string \<Rightarrow> string \<Rightarrow> string" where
  "replace_first old new [] = []"
| "replace_first old new (c # cs) =
     (if take (length old) (c # cs) = old then new @ drop (length old) (c # cs)
      else c # replace_first old new cs)"

definition substitute :: "string \<Rightarrow> string \<Rightarrow> string list" where
  "substitute s p =
     secrets_example_h
       [17 := replace_first ''YOUR_WIFI_SSID'' s (secrets_example_h ! 17),
        18 := replace_first ''YOUR_WIFI_PASSWORD'' p (secrets_example_h ! 18)]"

text \<open>
  A string is plain when it has none of the three characters that mean something else
  than themselves inside a string literal: the double quote, the backslash, a line break.
\<close>

definition plain_char :: "char \<Rightarrow> bool" where
  "plain_char c = (c \<noteq> dquote \<and> c \<noteq> backslash \<and> \<not> is_line_break c)"

definition plain :: "string \<Rightarrow> bool" where
  "plain s = list_all plain_char s"

definition nul_free :: "string \<Rightarrow> bool" where
  "nul_free s = list_all (\<lambda>c. c \<noteq> CHR 0x00) s"

text \<open>
  The form that the specification gives for an assignment: \<^verbatim>\<open>name = "value";\<close>. It follows
  the specification's words and is only compared with the text of the header.
\<close>

definition spec_assignment_form :: "string \<Rightarrow> string \<Rightarrow> string" where
  "spec_assignment_form n v = n @ '' = '' @ [dquote] @ v @ [dquote] @ '';''"


section \<open>Lexing the header and its copies\<close>

lemmas lex_defs = lex_line_def start_line_def end_line_def and_then_def lex_char_def
  code_char_def flush_word_def is_line_break_def is_space_def is_ident_char_def dquote_def
  backslash_def simple_escape_def

lemmas process_defs = classify_def directive_def parse_decl_def active_def
  define_global_def

lemma substitute_text:
  \<open>substitute s p =
    [''/*'',
     '' * WiFi Credentials Template'',
     '' * '',
     '' * INSTRUCTIONS:'',
     '' * 1. Copy this file and rename it to "secrets.h"'',
     '' * 2. Replace YOUR_WIFI_SSID with your actual WiFi network name'',
     '' * 3. Replace YOUR_WIFI_PASSWORD with your actual WiFi password'',
     '' * 4. Save the file'',
     '' * '',
     '' * IMPORTANT: Never commit secrets.h to version control!'',
     '' * Only commit secrets_example.h as a template.'',
     '' */'',
     '''',
     ''#ifndef SECRETS_H'',
     ''#define SECRETS_H'',
     '''',
     ''// WiFi Network Credentials'',
     ''const char* ssid = "'' @ s @ ''";        // Replace with your WiFi network name'',
     ''const char* password = "'' @ p @ ''"; // Replace with your WiFi password'',
     '''',
     ''#endif'']\<close>
  by (simp add: substitute_def secrets_example_h_def)

lemma substitute_placeholders:
  "substitute ''YOUR_WIFI_SSID'' ''YOUR_WIFI_PASSWORD'' = secrets_example_h"
  by (simp add: substitute_text secrets_example_h_def)

lemma plain_placeholders:
  "plain ''YOUR_WIFI_SSID''" "plain ''YOUR_WIFI_PASSWORD''"
  by (simp_all add: plain_def plain_char_def dquote_def backslash_def is_line_break_def)

lemma plain_Nil: "plain []"
  by (simp add: plain_def)

lemma c_str_nul_free: "nul_free v \<Longrightarrow> c_str v = v"
  by (simp add: nul_free_def c_str_def list_all_iff)

lemma c_str_placeholders:
  "c_str ''YOUR_WIFI_SSID'' = ''YOUR_WIFI_SSID''"
  "c_str ''YOUR_WIFI_PASSWORD'' = ''YOUR_WIFI_PASSWORD''"
  by (simp_all add: c_str_def)

lemma lex_chars_append:
  "lex_chars (xs @ ys) lx = and_then (lex_chars xs lx) (lex_chars ys)"
  by (induction xs arbitrary: lx) (auto simp: and_then_def split: sum.splits)

text \<open>Inside a string literal, plain characters are taken as they are.\<close>

lemma lex_chars_plain:
  "plain s \<Longrightarrow> mode lx = InString \<Longrightarrow> lex_chars s lx = Inr (lx\<lparr>word := word lx @ s\<rparr>)"
proof (induction s arbitrary: lx)
  case Nil
  then show ?case by simp
next
  case (Cons c s)
  from Cons.prems have c: "plain_char c" and s: "plain s"
    by (simp_all add: plain_def)
  from c Cons.prems(2) have "lex_char c lx = Inr (lx\<lparr>word := word lx @ [c]\<rparr>)"
    by (simp add: lex_char_def plain_char_def)
  then show ?case
    using Cons.IH [OF s, of "lx\<lparr>word := word lx @ [c]\<rparr>"] Cons.prems(2)
    by (simp add: and_then_def)
qed

lemma lex_chars_plain_append:
  "plain v \<Longrightarrow> mode lx = InString \<Longrightarrow>
     lex_chars (v @ post) lx = lex_chars post (lx\<lparr>word := word lx @ v\<rparr>)"
  by (simp add: lex_chars_append lex_chars_plain and_then_def)

lemma lex_substitute:
  assumes "plain s" "plain p"
  shows "lex_lines False (substitute s p) =
     Inr [[], [], [], [], [], [], [], [], [], [], [], [], [],
      [Punct CHR ''#'', Ident ''ifndef'', Ident ''SECRETS_H''],
      [Punct CHR ''#'', Ident ''define'', Ident ''SECRETS_H''], [], [],
      [Ident ''const'', Ident ''char'', Punct CHR ''*'', Ident ''ssid'',
       Punct CHR ''='', StrLit s, Punct CHR '';''],
      [Ident ''const'', Ident ''char'', Punct CHR ''*'', Ident ''password'',
       Punct CHR ''='', StrLit p, Punct CHR '';''],
      [], [Punct CHR ''#'', Ident ''endif'']]"
  unfolding substitute_text
  using assms by (simp add: lex_defs lex_chars_plain_append)

lemma lex_template:
  "lex_lines False secrets_example_h =
     Inr [[], [], [], [], [], [], [], [], [], [], [], [], [],
      [Punct CHR ''#'', Ident ''ifndef'', Ident ''SECRETS_H''],
      [Punct CHR ''#'', Ident ''define'', Ident ''SECRETS_H''], [], [],
      [Ident ''const'', Ident ''char'', Punct CHR ''*'', Ident ''ssid'',
       Punct CHR ''='', StrLit ''YOUR_WIFI_SSID'', Punct CHR '';''],
      [Ident ''const'', Ident ''char'', Punct CHR ''*'', Ident ''password'',
       Punct CHR ''='', StrLit ''YOUR_WIFI_PASSWORD'', Punct CHR '';''],
      [], [Punct CHR ''#'', Ident ''endif'']]"
  using lex_substitute [OF plain_placeholders] by (simp only: substitute_placeholders)

section \<open>Including the header and its copies\<close>

text \<open>
  What a copy with plain values does to a translation unit: nothing when the guard macro
  is defined; otherwise it defines the guard and the two globals, unless one of the two
  names is taken, which stops the build.
\<close>

lemma include_substitute:
  assumes "plain s" "plain p"
  shows "include_file (substitute s p) u =
     (if ''SECRETS_H'' \<in> macros u then Inr u
      else if ''ssid'' \<in> fst ` set (globals u) then Inl (Redefinition ''ssid'')
      else if ''password'' \<in> fst ` set (globals u) then Inl (Redefinition ''password'')
      else Inr (u\<lparr>macros := insert ''SECRETS_H'' (macros u),
                 globals := globals u @ [(''ssid'', s), (''password'', p)]\<rparr>))"
  unfolding include_file_def lex_substitute [OF assms]
  by (simp add: and_then_def process_defs)

lemma include_template:
  "include_file secrets_example_h u =
     (if ''SECRETS_H'' \<in> macros u then Inr u
      else if ''ssid'' \<in> fst ` set (globals u) then Inl (Redefinition ''ssid'')
      else if ''password'' \<in> fst ` set (globals u) then Inl (Redefinition ''password'')
      else Inr (u\<lparr>macros := insert ''SECRETS_H'' (macros u),
                 globals := globals u @ [(''ssid'', ''YOUR_WIFI_SSID''),
                                         (''password'', ''YOUR_WIFI_PASSWORD'')]\<rparr>))"
  using include_substitute [OF plain_placeholders, of u] by (simp only: substitute_placeholders)

lemma include_substitute_empty:
  assumes "plain s" "plain p"
  shows "include_file (substitute s p) empty_tu =
     Inr \<lparr>macros = {''SECRETS_H''}, globals = [(''ssid'', s), (''password'', p)]\<rparr>"
  by (simp add: include_substitute [OF assms] empty_tu_def)

lemma include_template_empty:
  "include_file secrets_example_h empty_tu =
     Inr \<lparr>macros = {''SECRETS_H''},
          globals = [(''ssid'', ''YOUR_WIFI_SSID''), (''password'', ''YOUR_WIFI_PASSWORD'')]\<rparr>"
  by (simp add: include_template empty_tu_def)

lemma read_back_substitute:
  assumes "plain s" "plain p"
  shows "read_back (substitute s p) = Inr (Some (c_str s), Some (c_str p))"
  by (simp add: read_back_def read_globals_def include_substitute_empty [OF assms] and_then_def)

text \<open>A second inclusion of the header changes nothing.\<close>

lemma include_template_twice:
  "and_then (include_file secrets_example_h u) (include_file secrets_example_h) =
   include_file secrets_example_h u"
  by (simp add: include_template and_then_def)

lemma include_times_template:
  "include_times (Suc n) secrets_example_h u = include_file secrets_example_h u"
proof (induction n arbitrary: u)
  case 0
  show ?case
    by (cases "include_file secrets_example_h u") (simp_all add: and_then_def)
next
  case (Suc n)
  have again: "include_times (Suc n) secrets_example_h = include_file secrets_example_h"
    using Suc.IH by (intro ext)
  have "include_times (Suc (Suc n)) secrets_example_h u =
        and_then (include_file secrets_example_h u) (include_times (Suc n) secrets_example_h)"
    by (simp only: include_times.simps)
  also have "\<dots> = include_file secrets_example_h u"
    by (simp only: again include_template_twice)
  finally show ?case .
qed

text \<open>
  The guard is what makes this so: the two definitions alone (lines 18 and 19), included
  twice, stop the build at the second \<^verbatim>\<open>ssid\<close>.
\<close>

lemma unguarded_definitions_conflict:
  "include_times 2 (take 2 (drop 17 secrets_example_h)) empty_tu = Inl (Redefinition ''ssid'')"
  by (simp add: numeral_2_eq_2 secrets_example_h_def include_file_def lex_defs process_defs
      empty_tu_def)

section \<open>Copies with any two values\<close>



















section \<open>What an including program can do to the two globals\<close>

text \<open>
  Both declarations are \<^verbatim>\<open>const char* name\<close>: the \<^verbatim>\<open>const\<close> stands before the star.
  The characters are read-only, the pointers are not.
\<close>

lemma declarations_are_pointers_to_const:
  "and_then (lex_lines False secrets_example_h)
     (\<lambda>tss. Inr (map (\<lambda>ts. (pointee_const ts, pointer_const ts)) [tss ! 17, tss ! 18]))
   = Inr [(True, False), (True, False)]"
  by (simp add: lex_template and_then_def pointee_const_def pointer_const_def)

lemma store_refused:
  "read_back_after (Store ''ssid'' i c) secrets_example_h = Inl (ReadOnly ''ssid'')"
  "read_back_after (Store ''password'' i c) secrets_example_h = Inl (ReadOnly ''password'')"
  by (simp_all add: read_back_after_def lex_template include_template_empty and_then_def
      declares_def parse_decl_def pointee_const_def)

lemma assign_accepted:
  "read_back_after (Assign ''ssid'' v) secrets_example_h
     = Inr (Some (c_str v), Some ''YOUR_WIFI_PASSWORD'')"
  "read_back_after (Assign ''password'' v) secrets_example_h
     = Inr (Some ''YOUR_WIFI_SSID'', Some (c_str v))"
  by (simp_all add: read_back_after_def lex_template include_template_empty and_then_def
      declares_def parse_decl_def pointer_const_def read_globals_def c_str_placeholders)

section \<open>The claims\<close>

text \<open>
  C1. The file defines exactly two string-valued constants, named \<^verbatim>\<open>ssid\<close> and
  \<^verbatim>\<open>password\<close>, and no other constants: included into an empty translation unit, the
  header builds, the globals it leaves are these two, in this order, each a
  \<^verbatim>\<open>const char*\<close> initialised by a string literal (the only form \<open>parse_decl\<close> takes),
  and the only other name it introduces is its guard macro, which has no value.
\<close>

theorem template_defines_ssid_and_password:
  "and_then (include_file secrets_example_h empty_tu) (\<lambda>u. Inr (map fst (globals u), macros u))
     = Inr ([''ssid'', ''password''], {''SECRETS_H''})"
  by (simp add: include_template_empty and_then_def)

text \<open>
  C2. The committed template holds the placeholder values and nothing else: read back from
  a build of the header, \<^verbatim>\<open>ssid\<close> is \<^verbatim>\<open>YOUR_WIFI_SSID\<close> and \<^verbatim>\<open>password\<close> is
  \<^verbatim>\<open>YOUR_WIFI_PASSWORD\<close>.
\<close>

theorem template_holds_placeholders:
  "read_back secrets_example_h = Inr (Some ''YOUR_WIFI_SSID'', Some ''YOUR_WIFI_PASSWORD'')"
  by (simp add: read_back_def read_globals_def include_template_empty and_then_def
      c_str_placeholders)

text \<open>
  C3, as amended. The two exposed values are process-wide pointers to read-only characters:
  no operation of the program can change a character of either string at run time, since a
  store through \<^verbatim>\<open>ssid\<close> or \<^verbatim>\<open>password\<close> does not build, whatever the index and the
  character. The pointers themselves are not read-only: an assignment to either one builds,
  and the constant then reads as the string assigned.
\<close>

theorem characters_are_read_only:
  "read_back_after (Store ''ssid'' i c) secrets_example_h = Inl (ReadOnly ''ssid'')
   \<and> read_back_after (Store ''password'' i c) secrets_example_h = Inl (ReadOnly ''password'')
   \<and> read_back_after (Assign ''ssid'' v) secrets_example_h
       = Inr (Some (c_str v), Some ''YOUR_WIFI_PASSWORD'')
   \<and> read_back_after (Assign ''password'' v) secrets_example_h
       = Inr (Some ''YOUR_WIFI_SSID'', Some (c_str v))"
  by (simp only: store_refused assign_accepted simp_thms)

text \<open>
  C3, as stated, fails: the claim calls the two values read-only constants that no operation
  can change. A program that includes the header and runs \<^verbatim>\<open>ssid = "other";\<close> builds,
  and \<^verbatim>\<open>ssid\<close> then reads \<^verbatim>\<open>other\<close>, not the value the header gave it.
\<close>

theorem pointer_can_be_reassigned:
  "read_back secrets_example_h = Inr (Some ''YOUR_WIFI_SSID'', Some ''YOUR_WIFI_PASSWORD'')
   \<and> read_back_after (Assign ''ssid'' ''other'') secrets_example_h
       = Inr (Some ''other'', Some ''YOUR_WIFI_PASSWORD'')"
proof -
  have "read_back secrets_example_h = Inr (Some ''YOUR_WIFI_SSID'', Some ''YOUR_WIFI_PASSWORD'')"
    by (simp add: read_back_def read_globals_def include_template_empty and_then_def
        c_str_placeholders)
  moreover have "c_str ''other'' = ''other''"
    by (simp add: c_str_def)
  ultimately show ?thesis
    using assign_accepted(1) [of "''other''"] by simp
qed

text \<open>
  C4, as amended. Round trip: for every pair of non-empty strings with no double quote,
  no backslash, no line break and no NUL character, substituted for the two placeholder
  values in a copy of the template, reading \<^verbatim>\<open>ssid\<close> and \<^verbatim>\<open>password\<close> back gives
  exactly those two strings. (A value may hold \<^verbatim>\<open>//\<close>, \<^verbatim>\<open>/*\<close> or \<^verbatim>\<open>*/\<close>: inside
  the literal they are not comments.)
\<close>

theorem round_trip_plain:
  assumes "s \<noteq> []" "p \<noteq> []" "plain s" "plain p" "nul_free s" "nul_free p"
  shows "read_back (substitute s p) = Inr (Some s, Some p)"
  using read_back_substitute [OF assms(3,4)] c_str_nul_free [OF assms(5)]
    c_str_nul_free [OF assms(6)]
  by simp

theorem round_trip_plain_witness:
  "''HomeNet'' \<noteq> [] \<and> ''s3cr3t!'' \<noteq> [] \<and> plain ''HomeNet'' \<and> plain ''s3cr3t!''
   \<and> nul_free ''HomeNet'' \<and> nul_free ''s3cr3t!''
   \<and> read_back (substitute ''HomeNet'' ''s3cr3t!'') = Inr (Some ''HomeNet'', Some ''s3cr3t!'')"
proof -
  have s: "''HomeNet'' \<noteq> []" and p: "''s3cr3t!'' \<noteq> []"
    by simp_all
  have ps: "plain ''HomeNet''" and pp: "plain ''s3cr3t!''"
    by (simp_all add: plain_def plain_char_def dquote_def backslash_def is_line_break_def)
  have ns: "nul_free ''HomeNet''" and np: "nul_free ''s3cr3t!''"
    by (simp_all add: nul_free_def)
  show ?thesis
    using round_trip_plain [OF s p ps pp ns np] s p ps pp ns np by simp
qed

text \<open>
  C4, as stated, fails: the claim is made for every pair of non-empty strings. With the
  network name \<^verbatim>\<open>a"b\<close> the line reads \<^verbatim>\<open>const char* ssid = "a"b"; ...\<close>; the literal ends
  after \<^verbatim>\<open>a\<close>, the third quote opens a literal that the line never closes, and the build
  stops: nothing is read back.
\<close>

theorem round_trip_fails_on_quote:
  \<open>''a"b'' \<noteq> [] \<and> ''x'' \<noteq> []
   \<and> read_back (substitute ''a"b'' ''x'') = Inl UnterminatedString
   \<and> read_back (substitute ''a"b'' ''x'') \<noteq> Inr (Some ''a"b'', Some ''x'')\<close>
proof -
  have \<open>read_back (substitute ''a"b'' ''x'') = Inl UnterminatedString\<close>
    by (simp add: read_back_def include_file_def substitute_text lex_defs process_defs
        empty_tu_def)
  then show ?thesis by simp
qed

text \<open>
  The backslash is the second such character: the two characters backslash, \<^verbatim>\<open>n\<close> in
  the text are one line feed in the value read back, with no error. The NUL character is
  the third: the build takes it, and the string read back ends before it.
\<close>

lemma escape_sequence_is_decoded:
  "read_back (substitute ''HomeNet'' (''a'' @ [backslash] @ ''n''))
     = Inr (Some ''HomeNet'', Some (''a'' @ [CHR 0x0A]))"
  by (simp add: read_back_def read_globals_def c_str_def include_file_def substitute_text
      lex_defs process_defs empty_tu_def)

lemma nul_ends_the_string:
  "read_back (substitute (''a'' @ [CHR 0x00] @ ''b'') ''x'') = Inr (Some ''a'', Some ''x'')"
  by (simp add: read_back_def read_globals_def c_str_def include_file_def substitute_text
      lex_defs process_defs empty_tu_def)

text \<open>
  C5. Boundary: the empty string is accepted as the value of either constant (the other one
  being any plain string, the empty one included): the build does not reject it, and the
  constant reads back as the empty string. The other constant reads back as the C string
  of its value.
\<close>

theorem empty_value_is_accepted:
  assumes "plain v"
  shows "read_back (substitute [] v) = Inr (Some [], Some (c_str v))
       \<and> read_back (substitute v []) = Inr (Some (c_str v), Some [])"
  using read_back_substitute [OF plain_Nil assms] read_back_substitute [OF assms plain_Nil]
  by (simp add: c_str_def)

theorem empty_value_is_accepted_witness:
  "plain ''HomeNet''
   \<and> read_back (substitute [] ''HomeNet'') = Inr (Some [], Some ''HomeNet'')
   \<and> read_back (substitute ''HomeNet'' []) = Inr (Some ''HomeNet'', Some [])"
proof -
  have v: "plain ''HomeNet''"
    by (simp add: plain_def plain_char_def dquote_def backslash_def is_line_break_def)
  have c: "c_str ''HomeNet'' = ''HomeNet''"
    by (simp add: c_str_def)
  show ?thesis
    using empty_value_is_accepted [OF v] v by (simp add: c)
qed

text \<open>
  C6. The component has no run-time error behaviour: it raises nothing and catches nothing,
  because it has no code that runs. With the comments dropped, its 21 lines are blank lines,
  the three directives of the include guard, and two lines of program text; each of the two
  is the definition of a global with a string literal as initialiser. There is no function,
  no statement, no \<^verbatim>\<open>throw\<close>, \<^verbatim>\<open>try\<close> or \<^verbatim>\<open>catch\<close>.
\<close>

theorem template_has_no_executable_code:
  "and_then (lex_lines False secrets_example_h) classify_all =
     Inr [Blank, Blank, Blank, Blank, Blank, Blank, Blank, Blank, Blank, Blank, Blank, Blank,
          Blank, IfNDef ''SECRETS_H'', Define ''SECRETS_H'', Blank, Blank,
          Text [Ident ''const'', Ident ''char'', Punct CHR ''*'', Ident ''ssid'',
                Punct CHR ''='', StrLit ''YOUR_WIFI_SSID'', Punct CHR '';''],
          Text [Ident ''const'', Ident ''char'', Punct CHR ''*'', Ident ''password'',
                Punct CHR ''='', StrLit ''YOUR_WIFI_PASSWORD'', Punct CHR '';''],
          Blank, EndIf]
   \<and> parse_decl [Ident ''const'', Ident ''char'', Punct CHR ''*'', Ident ''ssid'',
                 Punct CHR ''='', StrLit ''YOUR_WIFI_SSID'', Punct CHR '';'']
       = Inr (''ssid'', ''YOUR_WIFI_SSID'')
   \<and> parse_decl [Ident ''const'', Ident ''char'', Punct CHR ''*'', Ident ''password'',
                 Punct CHR ''='', StrLit ''YOUR_WIFI_PASSWORD'', Punct CHR '';'']
       = Inr (''password'', ''YOUR_WIFI_PASSWORD'')"
  by (simp add: lex_template and_then_def process_defs)

text \<open>
  C7. File format: each of the two assignments has the textual form
  \<^verbatim>\<open>name = "value";\<close> (after the type \<^verbatim>\<open>const char*\<close>), and an explanatory comment
  follows it on the same line.
\<close>

theorem assignments_follow_spec_form:
  \<open>secrets_example_h ! 17 =
      ''const char* '' @ spec_assignment_form ''ssid'' ''YOUR_WIFI_SSID''
        @ ''        // Replace with your WiFi network name''
   \<and> secrets_example_h ! 18 =
      ''const char* '' @ spec_assignment_form ''password'' ''YOUR_WIFI_PASSWORD''
        @ '' // Replace with your WiFi password''\<close>
  by (simp add: secrets_example_h_def spec_assignment_form_def dquote_def)

text \<open>
  C8. Size: the whole source file is 21 lines of text (the last one has no line
  terminator).
\<close>

theorem template_has_21_lines:
  "length secrets_example_h = 21"
  by (simp add: secrets_example_h_def)

text \<open>
  C9. Including the file is idempotent: in any translation unit, including it once more,
  any number of times, gives what including it once gives; from an empty translation unit
  that is one definition of each constant, never a redefinition.
\<close>

theorem include_is_idempotent:
  "include_times (Suc n) secrets_example_h u = include_file secrets_example_h u
   \<and> include_times (Suc n) secrets_example_h empty_tu =
       Inr \<lparr>macros = {''SECRETS_H''},
            globals = [(''ssid'', ''YOUR_WIFI_SSID''), (''password'', ''YOUR_WIFI_PASSWORD'')]\<rparr>"
  by (simp only: include_times_template include_template_empty simp_thms)



text \<open>
  The same holds where the copy is no header on its own: with the network name \<^verbatim>\<open>a"b\<close>
  the copy does not build, yet after the template it is skipped, unterminated literal
  and all.
\<close>

lemma template_then_unterminated_copy:
  \<open>and_then (include_file secrets_example_h empty_tu) (include_file (substitute ''a"b'' ''x''))
     = Inr \<lparr>macros = {''SECRETS_H''},
            globals = [(''ssid'', ''YOUR_WIFI_SSID''), (''password'', ''YOUR_WIFI_PASSWORD'')]\<rparr>\<close>
proof -
  have \<open>include_file (substitute ''a"b'' ''x'')
          \<lparr>macros = {''SECRETS_H''},
           globals = [(''ssid'', ''YOUR_WIFI_SSID''), (''password'', ''YOUR_WIFI_PASSWORD'')]\<rparr>
        = Inr \<lparr>macros = {''SECRETS_H''},
               globals = [(''ssid'', ''YOUR_WIFI_SSID''), (''password'', ''YOUR_WIFI_PASSWORD'')]\<rparr>\<close>
    by (simp add: include_file_def substitute_text lex_defs process_defs)
  then show ?thesis
    by (simp add: include_template_empty and_then_def)
qed

end
